theory Spec2Isabelle
  imports Complex_Main "HOL-Library.Word" "HOL-Library.Sublist"
begin

section \<open>Strings\<close>

text \<open>
  A JavaScript string is a sequence of UTF-16 code units. String literals of the source
  that are plain ASCII are written with \<open>ascii\<close>; the few that hold other characters
  (the emoji of the toast titles) are spelled out as code units.
\<close>

type_synonym jsstring = "16 word list"

definition ascii :: "string \<Rightarrow> jsstring" where
  "ascii s = map of_char s"

text \<open>
  \<open>String.prototype.trim\<close> removes the WhiteSpace and LineTerminator code points of
  ECMAScript from both ends. All of them lie in the Basic Multilingual Plane, so the
  test is on single code units.
\<close>

definition isWhiteSpace :: "16 word \<Rightarrow> bool" where
  "isWhiteSpace c =
     (c \<in> {0x9, 0xA, 0xB, 0xC, 0xD, 0x20, 0xA0, 0x1680, 0x2028, 0x2029, 0x202F, 0x205F,
            0x3000, 0xFEFF}
      \<or> (0x2000 \<le> c \<and> c \<le> 0x200A))"

definition trim :: "jsstring \<Rightarrow> jsstring" where
  "trim s = rev (dropWhile isWhiteSpace (rev (dropWhile isWhiteSpace s)))"

text \<open>Truthiness of a string: every string but the empty one.\<close>

definition truthy_str :: "jsstring \<Rightarrow> bool" where
  "truthy_str s = (s \<noteq> [])"

text \<open>The operator \<open>a || b\<close> on two strings.\<close>

definition or_str :: "jsstring \<Rightarrow> jsstring \<Rightarrow> jsstring" where
  "or_str a b = (if truthy_str a then a else b)"

section \<open>JSON values\<close>

text \<open>
  The values \<open>response.json()\<close> can produce. A number is a finite value or an infinity
  (\<open>1e999\<close> parses to \<open>Infinity\<close>); \<open>NaN\<close> does not come out of JSON. An object holds its
  properties in order, each key once.
\<close>

datatype jsnum = Finite real | PosInf | NegInf

datatype json =
    JNull
  | JBool bool
  | JNum jsnum
  | JStr jsstring
  | JArr "json list"
  | JObj "(jsstring \<times> json) list"

section \<open>The data model of \<open>lib/api-service.ts\<close>\<close>

datatype priority = Urgent | High | Medium | Low

datatype status = Todo | InProgress | Completed

datatype source_type = Email | Message | Note | Other

datatype sentiment = Positive | Neutral | Negative

text \<open>The object under \<open>Task.category\<close>.\<close>

record CategoryRef =
  cr_id :: jsstring
  cr_name :: jsstring
  cr_color :: jsstring

text \<open>Interface \<open>AISuggestions\<close>; its field \<open>priority_score\<close> is \<open>sug_priority_score\<close> here.\<close>

record AISuggestions =
  suggested_deadline :: "jsstring option"
  suggested_category :: "jsstring option"
  enhanced_description :: "jsstring option"
  reasoning :: "jsstring option"
  sug_priority_score :: "real option"

text \<open>
  Interface \<open>Task\<close>. The field \<open>id\<close> is \<open>task_id\<close> here; an optional field
  (\<open>deadline?\<close>) is an \<open>option\<close>, \<open>None\<close> when the property is missing.
\<close>

record Task =
  task_id :: jsstring
  title :: jsstring
  description :: jsstring
  category :: "CategoryRef option"
  category_id :: "jsstring option"
  priority :: priority
  priority_score :: real
  deadline :: "jsstring option"
  status :: status
  ai_suggestions :: "json option"
  tags :: "jsstring list"
  created_at :: jsstring
  updated_at :: jsstring
  is_overdue :: bool
  days_until_deadline :: "real option"

record Category =
  cat_id :: jsstring
  cat_name :: jsstring
  cat_color :: jsstring
  usage_frequency :: real
  cat_created_at :: jsstring
  cat_updated_at :: jsstring

record ProcessedInsights =
  pi_keywords :: "jsstring list"
  pi_sentiment :: sentiment
  pi_urgency :: real
  extracted_tasks :: "jsstring list option"

record ContextEntry =
  ctx_id :: jsstring
  content :: jsstring
  ctx_source_type :: source_type
  processed_insights :: ProcessedInsights
  ctx_created_at :: jsstring
  ctx_updated_at :: jsstring

section \<open>The reducer of \<open>contexts/task-context.tsx\<close>\<close>

record TaskState =
  tasks :: "Task list"
  contexts :: "ContextEntry list"
  categories :: "Category list"
  loading :: bool
  error :: "jsstring option"

datatype TaskAction =
    SET_LOADING bool
  | SET_ERROR "jsstring option"
  | SET_TASKS "Task list"
  | ADD_TASK Task
  | UPDATE_TASK Task
  | DELETE_TASK jsstring
  | SET_CONTEXTS "ContextEntry list"
  | ADD_CONTEXT ContextEntry
  | SET_CATEGORIES "Category list"

definition initialState :: TaskState where
  "initialState = \<lparr>tasks = [], contexts = [], categories = [], loading = False, error = None\<rparr>"

text \<open>
  \<open>taskReducer\<close>, one equation for each \<open>case\<close> of the \<open>switch\<close>. The \<open>default\<close> branch
  is not reachable for a value of the action type.
\<close>

fun taskReducer :: "TaskState \<Rightarrow> TaskAction \<Rightarrow> TaskState" where
  "taskReducer state (SET_LOADING p) = state\<lparr>loading := p\<rparr>"
| "taskReducer state (SET_ERROR p) = state\<lparr>error := p\<rparr>"
| "taskReducer state (SET_TASKS p) = state\<lparr>tasks := p\<rparr>"
| "taskReducer state (ADD_TASK p) = state\<lparr>tasks := tasks state @ [p]\<rparr>"
| "taskReducer state (UPDATE_TASK p) =
     state\<lparr>tasks := map (\<lambda>task. if task_id task = task_id p then p else task) (tasks state)\<rparr>"
| "taskReducer state (DELETE_TASK p) =
     state\<lparr>tasks := filter (\<lambda>task. task_id task \<noteq> p) (tasks state)\<rparr>"
| "taskReducer state (SET_CONTEXTS p) = state\<lparr>contexts := p\<rparr>"
| "taskReducer state (ADD_CONTEXT p) = state\<lparr>contexts := contexts state @ [p]\<rparr>"
| "taskReducer state (SET_CATEGORIES p) = state\<lparr>categories := p\<rparr>"

section \<open>Dates\<close>

text \<open>
  A time value is a number of milliseconds since the epoch, as \<open>Date.now()\<close> returns it.
  \<open>civil_from_days\<close> gives the year, month and day of the proleptic Gregorian calendar in
  UTC for a number of days since the epoch, which is what \<open>Date.prototype.toISOString\<close>
  prints.
\<close>

definition civil_from_days :: "int \<Rightarrow> int \<times> int \<times> int" where
  "civil_from_days days =
     (let z = days + 719468;
          era = z div 146097;
          doe = z mod 146097;
          yoe = (doe - doe div 1460 + doe div 36524 - doe div 146096) div 365;
          doy = doe - (365 * yoe + yoe div 4 - yoe div 100);
          mp = (5 * doy + 2) div 153;
          d = doy - (153 * mp + 2) div 5 + 1;
          m = (if mp < 10 then mp + 3 else mp - 9);
          y = yoe + era * 400 + (if m \<le> 2 then 1 else 0)
      in (y, m, d))"

definition digit :: "int \<Rightarrow> 16 word" where
  "digit d = word_of_int (48 + d mod 10)"

definition pad2 :: "int \<Rightarrow> jsstring" where
  "pad2 n = [digit (n div 10), digit n]"

definition pad3 :: "int \<Rightarrow> jsstring" where
  "pad3 n = [digit (n div 100), digit (n div 10), digit n]"

definition pad4 :: "int \<Rightarrow> jsstring" where
  "pad4 n = [digit (n div 1000), digit (n div 100), digit (n div 10), digit n]"

definition pad6 :: "int \<Rightarrow> jsstring" where
  "pad6 n = [digit (n div 100000), digit (n div 10000), digit (n div 1000), digit (n div 100),
             digit (n div 10), digit n]"

text \<open>Years 0 to 9999 print with four digits, all others with a sign and six digits.\<close>

definition isoYear :: "int \<Rightarrow> jsstring" where
  "isoYear y =
     (if 0 \<le> y \<and> y \<le> 9999 then pad4 y
      else if y < 0 then ascii ''-'' @ pad6 (- y)
      else ascii ''+'' @ pad6 y)"

text \<open>
  \<open>new Date(t).toISOString()\<close>: a \<open>RangeError\<close> (\<open>None\<close>) when the time value is not in
  the range of \<open>Date\<close>, else \<open>YYYY-MM-DDTHH:mm:ss.sssZ\<close>.
\<close>

definition toISOString :: "int \<Rightarrow> jsstring option" where
  "toISOString t =
     (if \<bar>t\<bar> > 8640000000000000 then None
      else
        (let ms = t mod 86400000 in
         case civil_from_days (t div 86400000) of
           (y, m, d) \<Rightarrow>
             Some (isoYear y @ ascii ''-'' @ pad2 m @ ascii ''-'' @ pad2 d @ ascii ''T''
                   @ pad2 (ms div 3600000) @ ascii '':'' @ pad2 (ms div 60000 mod 60)
                   @ ascii '':'' @ pad2 (ms div 1000 mod 60) @ ascii ''.'' @ pad3 (ms mod 1000)
                   @ ascii ''Z'')))"

text \<open>\<open>s.split('T')[0]\<close>: the part of \<open>s\<close> before its first \<open>T\<close>, all of \<open>s\<close> if it has none.\<close>

definition split_T_0 :: "jsstring \<Rightarrow> jsstring" where
  "split_T_0 s = takeWhile (\<lambda>c. c \<noteq> 0x54) s"

section \<open>The service of \<open>lib/api-service.ts\<close>\<close>




text \<open>
  What \<open>fetch\<close> does with a request: the promise rejects (network failure, abort), or a
  response arrives with a status and a body, the body being what \<open>response.json()\<close>
  returns, \<open>None\<close> when it rejects because the body is not JSON.
\<close>

datatype fetch_outcome = Rejected | Responded nat "json option"

datatype api_error = FetchFailed | HttpError nat | JsonSyntaxError | RangeError

record http_request =
  url :: jsstring
  http_method :: "jsstring option"
  headers :: "(jsstring \<times> jsstring) list"
  body :: "json option"

text \<open>The \<open>options\<close> argument of \<open>request\<close>: the method and the value that is stringified.\<close>

record request_options =
  opt_method :: "jsstring option"
  opt_body :: "json option"


record toast =
  toast_title :: jsstring
  toast_description :: jsstring
  toast_variant :: "jsstring option"

record PriorityRequest =
  pr_title :: jsstring
  pr_description :: jsstring
  pr_category_id :: jsstring
  pr_deadline :: jsstring

record PriorityResult =
  res_priority_score :: real
  res_priority :: jsstring
  res_reasoning :: jsstring

record TaskData =
  td_title :: jsstring
  td_description :: jsstring
  td_category_id :: jsstring
  td_priority :: jsstring
  td_priority_score :: real
  td_deadline :: jsstring
  td_status :: status
  td_ai_suggestions :: json

text \<open>What a handler does besides setting its own state, in the order it does it.\<close>

datatype effect =
    Toast toast
  | ConsoleError jsstring api_error
  | CallCalculatePriority PriorityRequest
  | CallCreateTask TaskData
  | Dispatch TaskAction
  | OnOpenChange bool

text \<open>
  \<open>ApiService.request\<close>, given what \<open>fetch\<close> does: the parsed body, or the error that is
  logged and thrown again. The second component is the console output.
\<close>

definition request ::
  "(http_request \<Rightarrow> fetch_outcome) \<Rightarrow> jsstring \<Rightarrow> jsstring \<Rightarrow> request_options
   \<Rightarrow> (api_error + json) \<times> effect list" where
  "request fetch baseUrl endpoint options =
     (let config = \<lparr>url = baseUrl @ endpoint, http_method = opt_method options,
                    headers = [(ascii ''Content-Type'', ascii ''application/json'')],
                    body = opt_body options\<rparr>;
          failed = (\<lambda>e. (Inl e, [ConsoleError (ascii ''API request failed:'') e]))
      in case fetch config of
           Rejected \<Rightarrow> failed FetchFailed
         | Responded st parsed \<Rightarrow>
             (if \<not> (200 \<le> st \<and> st \<le> 299) then failed (HttpError st)
              else case parsed of None \<Rightarrow> failed JsonSyntaxError | Some j \<Rightarrow> (Inr j, [])))"




section \<open>The forms: \<open>TaskManager\<close> and \<open>QuickAddTask\<close>\<close>

text \<open>
  Both components hold the same form. A handler is a function of the component's state at
  the moment it is called (the values its closure sees) and of the service methods it
  calls; it returns the state after its last setter and the effects in order. A service
  method is a parameter that gives the outcome of the awaited call: the value of the
  declared result type, or the error the call throws, which \<open>ApiService.request\<close> has
  logged before. \<open>now1\<close> and \<open>now2\<close> are the values
  of the two evaluations of \<open>Date.now()\<close>, before and after the priority call.
\<close>

record FormData =
  f_title :: jsstring
  f_description :: jsstring
  f_category :: jsstring
  f_deadline :: jsstring

definition emptyForm :: FormData where
  "emptyForm = \<lparr>f_title = [], f_description = [], f_category = [], f_deadline = []\<rparr>"

record TaskManagerState =
  showCreateForm :: bool
  isCreating :: bool
  isGettingSuggestions :: bool
  formData :: FormData
  aiSuggestions :: json

record QuickAddState =
  isLoading :: bool
  qa_isGettingSuggestions :: bool
  qa_formData :: FormData
  qa_aiSuggestions :: json

text \<open>
  \<open>formData.deadline || new Date(Date.now() + 7 * 24 * 60 * 60 * 1000).toISOString().split('T')[0]\<close>:
  the clock is read only when the deadline of the form is empty.
\<close>

definition deadlineOrDefault :: "jsstring \<Rightarrow> int \<Rightarrow> api_error + jsstring" where
  "deadlineOrDefault d now =
     (if truthy_str d then Inr d
      else case toISOString (now + 7 * 24 * 60 * 60 * 1000) of
             None \<Rightarrow> Inl RangeError
           | Some s \<Rightarrow> Inr (split_T_0 s))"

definition destructive :: "jsstring option" where
  "destructive = Some (ascii ''destructive'')"

definition titleRequired :: toast where
  "titleRequired = \<lparr>toast_title = ascii ''Title Required'',
                    toast_description = ascii ''Please enter a task title'',
                    toast_variant = destructive\<rparr>"

definition createFailed :: "api_error \<Rightarrow> effect list" where
  "createFailed e =
     [ConsoleError (ascii ''Task creation error:'') e,
      Toast \<lparr>toast_title = ascii ''Error'', toast_description = ascii ''Failed to create task'',
             toast_variant = destructive\<rparr>]"

text \<open>
  A service method that throws has thrown from \<open>ApiService.request\<close>, which prints its own
  line first.
\<close>

definition serviceFailed :: "api_error \<Rightarrow> effect list" where
  "serviceFailed e = ConsoleError (ascii ''API request failed:'') e # createFailed e"

text \<open>\<open>handleCreateTask\<close> of \<open>TaskManager\<close>.\<close>

definition handleCreateTask ::
  "int \<Rightarrow> int \<Rightarrow> (PriorityRequest \<Rightarrow> api_error + PriorityResult) \<Rightarrow> (TaskData \<Rightarrow> api_error + Task)
   \<Rightarrow> TaskManagerState \<Rightarrow> TaskManagerState \<times> effect list" where
  "handleCreateTask now1 now2 calculatePriority createTask st =
     (let form = formData st in
      if \<not> truthy_str (trim (f_title form)) then (st, [Toast titleRequired])
      else
        case deadlineOrDefault (f_deadline form) now1 of
          Inl e \<Rightarrow> (st\<lparr>isCreating := False\<rparr>, createFailed e)
        | Inr deadline1 \<Rightarrow>
            (let taskDataForPriority =
                   \<lparr>pr_title = trim (f_title form), pr_description = trim (f_description form),
                    pr_category_id = or_str (f_category form) (ascii ''Personal''),
                    pr_deadline = deadline1\<rparr>
             in case calculatePriority taskDataForPriority of
                  Inl e \<Rightarrow>
                    (st\<lparr>isCreating := False\<rparr>,
                     CallCalculatePriority taskDataForPriority # serviceFailed e)
                | Inr priorityResult \<Rightarrow>
                    (case deadlineOrDefault (f_deadline form) now2 of
                       Inl e \<Rightarrow>
                         (st\<lparr>isCreating := False\<rparr>,
                          CallCalculatePriority taskDataForPriority # createFailed e)
                     | Inr deadline2 \<Rightarrow>
                         (let taskData =
                                \<lparr>td_title = trim (f_title form),
                                 td_description = trim (f_description form),
                                 td_category_id = or_str (f_category form) (ascii ''Personal''),
                                 td_priority = res_priority priorityResult,
                                 td_priority_score = res_priority_score priorityResult,
                                 td_deadline = deadline2,
                                 td_status = Todo,
                                 td_ai_suggestions = aiSuggestions st\<rparr>
                          in case createTask taskData of
                               Inl e \<Rightarrow>
                                 (st\<lparr>isCreating := False\<rparr>,
                                  CallCalculatePriority taskDataForPriority
                                  # CallCreateTask taskData # serviceFailed e)
                             | Inr createdTask \<Rightarrow>
                                 (st\<lparr>formData := emptyForm, aiSuggestions := JNull,
                                     showCreateForm := False, isCreating := False\<rparr>,
                                  [CallCalculatePriority taskDataForPriority,
                                   CallCreateTask taskData,
                                   Dispatch (ADD_TASK createdTask),
                                   Toast \<lparr>toast_title =
                                            ascii ''Task Created Successfully! '' @ [0xD83C, 0xDF89],
                                          toast_description =
                                            ascii ''Your new task has been added with AI priority: ''
                                            @ res_priority priorityResult,
                                          toast_variant = None\<rparr>])))))"

text \<open>\<open>handleSubmit\<close> of \<open>QuickAddTask\<close>.\<close>

definition handleSubmit ::
  "int \<Rightarrow> int \<Rightarrow> (PriorityRequest \<Rightarrow> api_error + PriorityResult) \<Rightarrow> (TaskData \<Rightarrow> api_error + Task)
   \<Rightarrow> QuickAddState \<Rightarrow> QuickAddState \<times> effect list" where
  "handleSubmit now1 now2 calculatePriority createTask st =
     (let form = qa_formData st in
      if \<not> truthy_str (trim (f_title form)) then (st, [Toast titleRequired])
      else
        case deadlineOrDefault (f_deadline form) now1 of
          Inl e \<Rightarrow> (st\<lparr>isLoading := False\<rparr>, createFailed e)
        | Inr deadline1 \<Rightarrow>
            (let taskDataForPriority =
                   \<lparr>pr_title = trim (f_title form), pr_description = trim (f_description form),
                    pr_category_id = or_str (f_category form) (ascii ''Personal''),
                    pr_deadline = deadline1\<rparr>
             in case calculatePriority taskDataForPriority of
                  Inl e \<Rightarrow>
                    (st\<lparr>isLoading := False\<rparr>,
                     CallCalculatePriority taskDataForPriority # serviceFailed e)
                | Inr priorityResult \<Rightarrow>
                    (case deadlineOrDefault (f_deadline form) now2 of
                       Inl e \<Rightarrow>
                         (st\<lparr>isLoading := False\<rparr>,
                          CallCalculatePriority taskDataForPriority # createFailed e)
                     | Inr deadline2 \<Rightarrow>
                         (let taskData =
                                \<lparr>td_title = trim (f_title form),
                                 td_description = trim (f_description form),
                                 td_category_id = or_str (f_category form) (ascii ''Personal''),
                                 td_priority = res_priority priorityResult,
                                 td_priority_score = res_priority_score priorityResult,
                                 td_deadline = deadline2,
                                 td_status = Todo,
                                 td_ai_suggestions = qa_aiSuggestions st\<rparr>
                          in case createTask taskData of
                               Inl e \<Rightarrow>
                                 (st\<lparr>isLoading := False\<rparr>,
                                  CallCalculatePriority taskDataForPriority
                                  # CallCreateTask taskData # serviceFailed e)
                             | Inr createdTask \<Rightarrow>
                                 (st\<lparr>qa_formData := emptyForm, qa_aiSuggestions := JNull,
                                     isLoading := False\<rparr>,
                                  [CallCalculatePriority taskDataForPriority,
                                   CallCreateTask taskData,
                                   Dispatch (ADD_TASK createdTask),
                                   OnOpenChange False,
                                   Toast \<lparr>toast_title = ascii ''Task Created! '' @ [0xD83C, 0xDF89],
                                          toast_description =
                                            ascii ''Your new task has been added with AI priority: ''
                                            @ res_priority priorityResult,
                                          toast_variant = None\<rparr>])))))"

text \<open>The requests a list of effects sends to the two endpoints of task creation.\<close>

fun priorityCalls :: "effect list \<Rightarrow> PriorityRequest list" where
  "priorityCalls [] = []"
| "priorityCalls (CallCalculatePriority r # es) = r # priorityCalls es"
| "priorityCalls (e # es) = priorityCalls es"

fun createCalls :: "effect list \<Rightarrow> TaskData list" where
  "createCalls [] = []"
| "createCalls (CallCreateTask d # es) = d # createCalls es"
| "createCalls (e # es) = createCalls es"

section \<open>Overdue tasks: \<open>TaskCard\<close> and \<open>Dashboard\<close>\<close>

text \<open>
  \<open>isOverdue\<close> of \<open>TaskCard\<close>. \<open>parseDate\<close> is \<open>new Date(s)\<close> for a string, \<open>None\<close> for an
  invalid date, which compares false with everything; \<open>now\<close> is the time value of
  \<open>new Date()\<close>.
\<close>

definition isOverdue :: "(jsstring \<Rightarrow> int option) \<Rightarrow> int \<Rightarrow> Task \<Rightarrow> bool" where
  "isOverdue parseDate now task =
     (case deadline task of
        None \<Rightarrow> False
      | Some d \<Rightarrow>
          if truthy_str d then
            (case parseDate d of None \<Rightarrow> False | Some t \<Rightarrow> t < now) \<and> status task \<noteq> Completed
          else False)"

record DashboardStats =
  total :: nat
  completed :: nat
  inProgress :: nat
  overdue :: nat

text \<open>\<open>stats\<close> of \<open>Dashboard\<close>; the task list of the state is an array.\<close>

definition stats :: "TaskState \<Rightarrow> DashboardStats" where
  "stats state =
     (let ts = tasks state in
      \<lparr>total = length ts,
       completed = length (filter (\<lambda>t. status t = Completed) ts),
       inProgress = length (filter (\<lambda>t. status t = InProgress) ts),
       overdue = length (filter (\<lambda>t. is_overdue t) ts)\<rparr>)"

section \<open>The priority label\<close>

text \<open>
  Modelled from the spec: the priority scorer behind \<open>POST /ai/calculate-priority/\<close> is
  server code that the sources do not hold; \<open>ApiService.calculatePriority\<close> only forwards
  the request and returns the answer. The spec gives the label of a score by
  "score \<ge> 0.75 \<rightarrow> urgent; \<ge> 0.5 \<rightarrow> high; \<ge> 0.25 \<rightarrow> medium; else low".
\<close>

definition label_of_score :: "real \<Rightarrow> priority" where
  "label_of_score score =
     (if score \<ge> 0.75 then Urgent
      else if score \<ge> 0.5 then High
      else if score \<ge> 0.25 then Medium
      else Low)"

text \<open>
  Modelled from the spec: the order of the four labels, \<open>low\<close> below \<open>medium\<close> below
  \<open>high\<close> below \<open>urgent\<close>, against which the order of the scores is compared.
\<close>

fun rank :: "priority \<Rightarrow> nat" where
  "rank Low = 0"
| "rank Medium = 1"
| "rank High = 2"
| "rank Urgent = 3"

section \<open>The insight aggregator\<close>

text \<open>
  The aggregator behind \<open>POST /ai/generate-insights/\<close> is server code that the sources
  do not hold: \<open>ApiService.generateInsights\<close> only posts the request and \<open>Analytics\<close>
  shows the answer, whose shape is the interface \<open>AnalyticsData\<close>. The definitions of this
  section follow the spec's description of the InsightAggregator. What the spec leaves
  open is a parameter: \<open>sentence\<close> is the text a rule emits, \<open>mid\<close> the weight of a
  completion between 7 and 30 days old, \<open>completedAt\<close> the time a task was completed,
  \<open>parseDate\<close> the reading of a deadline.
\<close>

record AnalyticsData =
  productivity :: real
  burnout :: real
  focus :: "jsstring list"
  recommendations :: "jsstring list"

text \<open>
  Modelled from the spec: the four trigger rules of the recommendations, in their priority
  order: deferring non-urgent work, a deadline review session, rebalancing focus, breaking
  tasks into smaller units.
\<close>

datatype recommendation =
  DeferNonUrgentWork | DeadlineReviewSession | RebalanceFocus | BreakTasksDown

text \<open>Modelled from the spec: \<open>clamp01\<close>, the value cut to the interval from 0 to 1.\<close>

definition clamp01 :: "real \<Rightarrow> real" where
  "clamp01 x = max 0 (min 1 x)"

text \<open>
  Modelled from the spec: "completions within the last 7 days count fully; completions
  older than 30 days are discounted to 50% weight".
\<close>

definition recency_weight :: "real \<Rightarrow> int \<Rightarrow> int \<Rightarrow> real" where
  "recency_weight mid now done_at =
     (let age = now - done_at in
      if age \<le> 7 * 86400000 then 1 else if age > 30 * 86400000 then 1 / 2 else mid)"

text \<open>
  Modelled from the spec: "is_overdue is derived (deadline < now AND status \<noteq> completed)";
  a task without a deadline is not overdue.
\<close>

definition derived_overdue :: "(jsstring \<Rightarrow> int option) \<Rightarrow> int \<Rightarrow> Task \<Rightarrow> bool" where
  "derived_overdue parseDate now t =
     ((case deadline t of
         None \<Rightarrow> False
       | Some d \<Rightarrow> (case parseDate d of None \<Rightarrow> False | Some x \<Rightarrow> x < now))
      \<and> status t \<noteq> Completed)"

text \<open>
  Modelled from the spec: the category name a task counts under; a missing optional field
  is treated as its documented default, which for the category is \<open>Personal\<close>.
\<close>

definition category_name :: "Task \<Rightarrow> jsstring" where
  "category_name t = (case category t of None \<Rightarrow> ascii ''Personal'' | Some c \<Rightarrow> cr_name c)"

text \<open>Modelled from the spec: "ties broken alphabetically", the order of two names.\<close>

fun alphabetical :: "jsstring \<Rightarrow> jsstring \<Rightarrow> bool" where
  "alphabetical [] ys = True"
| "alphabetical (x # xs) [] = False"
| "alphabetical (x # xs) (y # ys) = (x < y \<or> (x = y \<and> alphabetical xs ys))"

text \<open>
  Modelled from the spec: "the top 5 category names by task count, descending, ties broken
  alphabetically": when one counted category comes before another.
\<close>

definition ranks_before :: "jsstring \<times> nat \<Rightarrow> jsstring \<times> nat \<Rightarrow> bool" where
  "ranks_before a b = (snd a > snd b \<or> (snd a = snd b \<and> alphabetical (fst a) (fst b)))"

text \<open>Modelled from the spec: insertion into a list kept in the order of \<open>ranks_before\<close>.\<close>

fun insert_ranked :: "jsstring \<times> nat \<Rightarrow> (jsstring \<times> nat) list \<Rightarrow> (jsstring \<times> nat) list" where
  "insert_ranked a [] = [a]"
| "insert_ranked a (b # bs) = (if ranks_before a b then a # b # bs else b # insert_ranked a bs)"

text \<open>Modelled from the spec: the task count of every category name that occurs.\<close>

definition category_counts :: "Task list \<Rightarrow> (jsstring \<times> nat) list" where
  "category_counts ts =
     map (\<lambda>c. (c, length (filter (\<lambda>t. category_name t = c) ts))) (remdups (map category_name ts))"

text \<open>
  Modelled from the spec: \<open>aggregate(tasks, contexts)\<close>, with
  "productivity = 100 * completedCount / max(1, totalCount)" weighted by recency and clamped
  to [0,100], "burnout = 100 * clamp01(0.6 * urgentRatio + 0.4 * overdueRatio)", the focus,
  and the recommendations of the rules "burnout \<ge> 70", "overdueRatio > 0.2", "a single
  category > 50% of all tasks", "productivity < 40 and totalCount \<ge> 5", at most one
  sentence for each rule that fires.
\<close>

definition aggregate ::
  "(recommendation \<Rightarrow> jsstring) \<Rightarrow> real \<Rightarrow> (Task \<Rightarrow> int) \<Rightarrow> (jsstring \<Rightarrow> int option) \<Rightarrow> int
   \<Rightarrow> Task list \<Rightarrow> ContextEntry list \<Rightarrow> AnalyticsData" where
  "aggregate sentence mid completedAt parseDate now ts cs =
     (let totalCount = length ts;
          denominator = real (max 1 totalCount);
          weighted = sum_list (map (\<lambda>t. recency_weight mid now (completedAt t))
                                   (filter (\<lambda>t. status t = Completed) ts));
          productivity_score = max 0 (min 100 (100 * weighted / denominator));
          urgentRatio = real (length (filter (\<lambda>t. priority t = Urgent) ts)) / denominator;
          overdueRatio = real (length (filter (derived_overdue parseDate now) ts)) / denominator;
          burnout_score = 100 * clamp01 (0.6 * urgentRatio + 0.4 * overdueRatio);
          counts = category_counts ts
      in \<lparr>productivity = productivity_score,
          burnout = burnout_score,
          focus = map fst (take 5 (foldr insert_ranked counts [])),
          recommendations =
            map sentence
              ((if burnout_score \<ge> 70 then [DeferNonUrgentWork] else [])
               @ (if overdueRatio > 0.2 then [DeadlineReviewSession] else [])
               @ (if list_ex (\<lambda>(c, n). 2 * n > totalCount) counts then [RebalanceFocus] else [])
               @ (if productivity_score < 40 \<and> totalCount \<ge> 5 then [BreakTasksDown] else []))\<rparr>)"

section \<open>The suggestion orchestrator\<close>

text \<open>
  The operation behind \<open>POST /ai/suggestions/\<close>, which may call an external AI provider,
  is server code that the sources do not hold: \<open>ApiService.getAISuggestions\<close> only posts
  the title and the description and returns the answer, whose shape is the interface
  \<open>AISuggestions\<close>. The definitions of this section follow the spec's description of the
  SuggestionOrchestrator. What the spec leaves open is a parameter: \<open>localCompute\<close> is the
  deterministic local result for a title and a description, \<open>provider\<close> the configured
  external provider, if there is one, as the outcome of the one bounded call to it.
\<close>

text \<open>
  Modelled from the spec: the outcomes of the single attempt at the external provider:
  success with an answer, or "provider timeout, network failure, or malformed response".
\<close>

datatype provider_outcome =
    ProviderAnswer AISuggestions
  | ProviderTimeout
  | ProviderNetworkFailure
  | ProviderMalformedResponse

text \<open>
  Modelled from the spec: the error that reaches the caller, "ValidationError -
  empty/missing required text field", with "the offending field named". A provider
  failure is no such error; it is only logged.
\<close>

datatype engine_error = ValidationError jsstring

text \<open>Modelled from the spec: "log the condition", the entry for a failed attempt.\<close>

datatype log_entry = ProviderFailed provider_outcome

text \<open>
  Modelled from the spec: "on success, the external answer supersedes the local one for
  presentation fields (suggested category/deadline/enhanced description/reasoning) but the
  deterministic priority score/label is retained unless the provider explicitly overrides
  it with a validated value within [0,1]". A field the answer does not hold stays local.
\<close>

definition supersede :: "AISuggestions \<Rightarrow> AISuggestions \<Rightarrow> AISuggestions" where
  "supersede localResult external =
     \<lparr>suggested_deadline =
        (case suggested_deadline external of
           None \<Rightarrow> suggested_deadline localResult | Some v \<Rightarrow> Some v),
      suggested_category =
        (case suggested_category external of
           None \<Rightarrow> suggested_category localResult | Some v \<Rightarrow> Some v),
      enhanced_description =
        (case enhanced_description external of
           None \<Rightarrow> enhanced_description localResult | Some v \<Rightarrow> Some v),
      reasoning =
        (case reasoning external of None \<Rightarrow> reasoning localResult | Some v \<Rightarrow> Some v),
      sug_priority_score =
        (case sug_priority_score external of
           None \<Rightarrow> sug_priority_score localResult
         | Some x \<Rightarrow> if 0 \<le> x \<and> x \<le> 1 then Some x else sug_priority_score localResult)\<rparr>"

text \<open>
  Modelled from the spec: the operation \<open>POST suggestions {title, description}\<close>. A request
  whose title is missing or empty is rejected with a validation error. Else the
  orchestrator "always computes the deterministic local result first", makes "exactly one
  external attempt" if a provider is configured, and "on provider timeout, network failure,
  or malformed response" discards the attempt, logs the condition and returns the local
  result.
\<close>

definition suggestions ::
  "(jsstring \<Rightarrow> jsstring \<Rightarrow> AISuggestions) \<Rightarrow> (jsstring \<Rightarrow> jsstring \<Rightarrow> provider_outcome) option
   \<Rightarrow> jsstring option \<Rightarrow> jsstring \<Rightarrow> (engine_error + AISuggestions) \<times> log_entry list" where
  "suggestions localCompute provider title_field description_field =
     (case title_field of
        None \<Rightarrow> (Inl (ValidationError (ascii ''title'')), [])
      | Some t \<Rightarrow>
          if t = [] then (Inl (ValidationError (ascii ''title'')), [])
          else
            (let localResult = localCompute t description_field in
             case provider of
               None \<Rightarrow> (Inr localResult, [])
             | Some attempt \<Rightarrow>
                 (case attempt t description_field of
                    ProviderAnswer external \<Rightarrow> (Inr (supersede localResult external), [])
                  | ProviderTimeout \<Rightarrow> (Inr localResult, [ProviderFailed ProviderTimeout])
                  | ProviderNetworkFailure \<Rightarrow>
                      (Inr localResult, [ProviderFailed ProviderNetworkFailure])
                  | ProviderMalformedResponse \<Rightarrow>
                      (Inr localResult, [ProviderFailed ProviderMalformedResponse]))))"

section \<open>Sample data\<close>

text \<open>
  Concrete inputs at which the theorems below are evaluated: a task, a form with a title
  and a description padded by blanks and with neither category nor deadline, a form whose
  title is white space only, a service that answers every call, a network that answers
  every request alike, a local result and a provider that times out, two parsed responses, and a task whose deadline has passed
  while its stored flag still says otherwise.
\<close>

definition sampleTask :: "string \<Rightarrow> string \<Rightarrow> Task" where
  "sampleTask i t =
     \<lparr>task_id = ascii i, title = ascii t, description = [], category = None,
      category_id = None, priority = Medium, priority_score = 1 / 2, deadline = None,
      status = Todo, ai_suggestions = None, tags = [], created_at = ascii ''2024-01-01'',
      updated_at = ascii ''2024-01-01'', is_overdue = False, days_until_deadline = None\<rparr>"

definition sampleForm :: FormData where
  "sampleForm = \<lparr>f_title = ascii ''  Write report '', f_description = ascii '' quarterly numbers  '',
                  f_category = [], f_deadline = []\<rparr>"

definition blankForm :: FormData where
  "blankForm = \<lparr>f_title = [0x20, 0x9, 0xA0, 0x2003], f_description = ascii ''notes'',
                 f_category = ascii ''Work'', f_deadline = ascii ''2024-03-01''\<rparr>"

definition managerState :: "FormData \<Rightarrow> TaskManagerState" where
  "managerState form = \<lparr>showCreateForm = True, isCreating = False, isGettingSuggestions = False,
                         formData = form, aiSuggestions = JNull\<rparr>"

definition quickAddState :: "FormData \<Rightarrow> QuickAddState" where
  "quickAddState form = \<lparr>isLoading = False, qa_isGettingSuggestions = False,
                          qa_formData = form, qa_aiSuggestions = JNull\<rparr>"

definition sampleCalculatePriority :: "PriorityRequest \<Rightarrow> api_error + PriorityResult" where
  "sampleCalculatePriority r =
     Inr \<lparr>res_priority_score = 3 / 5, res_priority = ascii ''high'',
          res_reasoning = ascii ''deadline''\<rparr>"

definition sampleCreateTask :: "TaskData \<Rightarrow> api_error + Task" where
  "sampleCreateTask d =
     Inr ((sampleTask ''t1'' '''')\<lparr>title := td_title d, description := td_description d,
                                    deadline := Some (td_deadline d), status := td_status d\<rparr>)"




definition sampleParseDate :: "jsstring \<Rightarrow> int option" where
  "sampleParseDate s =
     (if s = ascii ''2024-01-01'' then Some 1704067200000
      else if s = ascii ''2030-01-01'' then Some 1893456000000
      else None)"

definition staleTask :: Task where
  "staleTask = (sampleTask ''t9'' ''Pay rent'')\<lparr>deadline := Some (ascii ''2024-01-01'')\<rparr>"

definition sampleCompletedAt :: "Task \<Rightarrow> int" where
  "sampleCompletedAt t = 1704067200000"



definition sampleLocal :: "jsstring \<Rightarrow> jsstring \<Rightarrow> AISuggestions" where
  "sampleLocal t d =
     \<lparr>suggested_deadline = Some (ascii ''2024-01-08''), suggested_category = Some (ascii ''Work''),
      enhanced_description = Some (t @ ascii '': '' @ d), reasoning = None,
      sug_priority_score = Some (1 / 2)\<rparr>"

definition timingOut :: "jsstring \<Rightarrow> jsstring \<Rightarrow> provider_outcome" where
  "timingOut t d = ProviderTimeout"

definition sampleSentence :: "recommendation \<Rightarrow> jsstring" where
  "sampleSentence r =
     (case r of
        DeferNonUrgentWork \<Rightarrow> ascii ''Defer non-urgent work.''
      | DeadlineReviewSession \<Rightarrow> ascii ''Plan a deadline review session.''
      | RebalanceFocus \<Rightarrow> ascii ''Rebalance your focus.''
      | BreakTasksDown \<Rightarrow> ascii ''Break tasks into smaller units.'')"

section \<open>Facts about the strings, the dates and the handlers\<close>

lemma dropWhile_Nil_iff: "dropWhile P xs = [] \<longleftrightarrow> (\<forall>x\<in>set xs. P x)"
  by (induction xs) auto
lemma trim_empty_iff: "trim s = [] \<longleftrightarrow> (\<forall>c\<in>set s. isWhiteSpace c)"
proof
  assume "trim s = []"
  then have all: "\<forall>x\<in>set (dropWhile isWhiteSpace s). isWhiteSpace x"
    by (simp add: trim_def dropWhile_Nil_iff)
  have "dropWhile isWhiteSpace s = []"
  proof (rule ccontr)
    assume ne: "dropWhile isWhiteSpace s \<noteq> []"
    then have "\<not> isWhiteSpace (hd (dropWhile isWhiteSpace s))" by (rule hd_dropWhile)
    moreover from ne have "hd (dropWhile isWhiteSpace s) \<in> set (dropWhile isWhiteSpace s)"
      by (rule hd_in_set)
    ultimately show False using all by blast
  qed
  then show "\<forall>c\<in>set s. isWhiteSpace c" by (simp add: dropWhile_Nil_iff)
next
  assume "\<forall>c\<in>set s. isWhiteSpace c"
  then show "trim s = []" by (auto simp: trim_def dest: set_dropWhileD)
qed

lemma blank_not_truthy: "(\<forall>c\<in>set s. isWhiteSpace c) \<Longrightarrow> \<not> truthy_str (trim s)"
  by (simp add: truthy_str_def trim_empty_iff)







lemma priorityCalls_handleCreateTask:
  assumes "r \<in> set (priorityCalls (snd (handleCreateTask now1 now2 calculatePriority createTask st)))"
  shows "truthy_str (trim (f_title (formData st)))
     \<and> pr_title r = trim (f_title (formData st))
     \<and> pr_description r = trim (f_description (formData st))
     \<and> pr_category_id r = or_str (f_category (formData st)) (ascii ''Personal'')
     \<and> deadlineOrDefault (f_deadline (formData st)) now1 = Inr (pr_deadline r)"
  using assms
  by (auto simp: handleCreateTask_def Let_def createFailed_def serviceFailed_def split: if_splits sum.splits)


lemma priorityCalls_handleSubmit:
  assumes "r \<in> set (priorityCalls (snd (handleSubmit now1 now2 calculatePriority createTask st)))"
  shows "truthy_str (trim (f_title (qa_formData st)))
     \<and> pr_title r = trim (f_title (qa_formData st))
     \<and> pr_description r = trim (f_description (qa_formData st))
     \<and> pr_category_id r = or_str (f_category (qa_formData st)) (ascii ''Personal'')
     \<and> deadlineOrDefault (f_deadline (qa_formData st)) now1 = Inr (pr_deadline r)"
  using assms
  by (auto simp: handleSubmit_def Let_def createFailed_def serviceFailed_def split: if_splits sum.splits)

lemma sample_default_deadline: "deadlineOrDefault [] 1704067200000 = Inr (ascii ''2024-01-08'')"
  by code_simp

lemma sample_title: "trim (ascii ''  Write report '') = ascii ''Write report''"
  by (simp add: trim_def ascii_def isWhiteSpace_def)

lemma sample_description: "trim (ascii '' quarterly numbers  '') = ascii ''quarterly numbers''"
  by (simp add: trim_def ascii_def isWhiteSpace_def)

lemma sample_handleCreateTask:
  "snd (handleCreateTask 1704067200000 1704067200000 sampleCalculatePriority sampleCreateTask
     (managerState sampleForm)) =
   [CallCalculatePriority
      \<lparr>pr_title = ascii ''Write report'', pr_description = ascii ''quarterly numbers'',
       pr_category_id = ascii ''Personal'', pr_deadline = ascii ''2024-01-08''\<rparr>,
    CallCreateTask
      \<lparr>td_title = ascii ''Write report'', td_description = ascii ''quarterly numbers'',
       td_category_id = ascii ''Personal'', td_priority = ascii ''high'',
       td_priority_score = 3 / 5, td_deadline = ascii ''2024-01-08'', td_status = Todo,
       td_ai_suggestions = JNull\<rparr>,
    Dispatch (ADD_TASK ((sampleTask ''t1'' '''')
       \<lparr>title := ascii ''Write report'', description := ascii ''quarterly numbers'',
        deadline := Some (ascii ''2024-01-08''), status := Todo\<rparr>)),
    Toast \<lparr>toast_title = ascii ''Task Created Successfully! '' @ [0xD83C, 0xDF89],
           toast_description = ascii ''Your new task has been added with AI priority: high'',
           toast_variant = None\<rparr>]"
  by (simp add: handleCreateTask_def managerState_def sampleForm_def sample_title sample_description
      sample_default_deadline or_str_def truthy_str_def sampleCalculatePriority_def
      sampleCreateTask_def Let_def)
     (simp add: ascii_def)

lemma sample_handleSubmit:
  "snd (handleSubmit 1704067200000 1704067200000 sampleCalculatePriority sampleCreateTask
     (quickAddState sampleForm)) =
   [CallCalculatePriority
      \<lparr>pr_title = ascii ''Write report'', pr_description = ascii ''quarterly numbers'',
       pr_category_id = ascii ''Personal'', pr_deadline = ascii ''2024-01-08''\<rparr>,
    CallCreateTask
      \<lparr>td_title = ascii ''Write report'', td_description = ascii ''quarterly numbers'',
       td_category_id = ascii ''Personal'', td_priority = ascii ''high'',
       td_priority_score = 3 / 5, td_deadline = ascii ''2024-01-08'', td_status = Todo,
       td_ai_suggestions = JNull\<rparr>,
    Dispatch (ADD_TASK ((sampleTask ''t1'' '''')
       \<lparr>title := ascii ''Write report'', description := ascii ''quarterly numbers'',
        deadline := Some (ascii ''2024-01-08''), status := Todo\<rparr>)),
    OnOpenChange False,
    Toast \<lparr>toast_title = ascii ''Task Created! '' @ [0xD83C, 0xDF89],
           toast_description = ascii ''Your new task has been added with AI priority: high'',
           toast_variant = None\<rparr>]"
  by (simp add: handleSubmit_def quickAddState_def sampleForm_def sample_title sample_description
      sample_default_deadline or_str_def truthy_str_def sampleCalculatePriority_def
      sampleCreateTask_def Let_def)
     (simp add: ascii_def)

lemma or_str_empty: "or_str [] b = b"
  by (simp add: or_str_def truthy_str_def)










lemma nonblank_truthy: "\<exists>c\<in>set s. \<not> isWhiteSpace c \<Longrightarrow> truthy_str (trim s)"
  by (simp add: truthy_str_def trim_empty_iff)

lemma toISOString_in_range: "\<bar>t\<bar> \<le> 8640000000000000 \<Longrightarrow> \<exists>s. toISOString t = Some s"
  by (auto simp: toISOString_def Let_def split: prod.splits)

lemma deadlineOrDefault_given: "d \<noteq> [] \<Longrightarrow> deadlineOrDefault d now = Inr d"
  by (simp add: deadlineOrDefault_def truthy_str_def)

lemma deadlineOrDefault_resolves:
  assumes "d \<noteq> [] \<or> \<bar>now + 7 * 24 * 60 * 60 * 1000\<bar> \<le> 8640000000000000"
  shows "\<exists>x. deadlineOrDefault d now = Inr x"
proof (cases "d = []")
  case False
  then show ?thesis by (simp add: deadlineOrDefault_given)
next
  case True
  with assms obtain s where "toISOString (now + 7 * 24 * 60 * 60 * 1000) = Some s"
    using toISOString_in_range by blast
  with True show ?thesis by (simp add: deadlineOrDefault_def truthy_str_def)
qed

lemma handleCreateTask_sends_priority:
  assumes "truthy_str (trim (f_title (formData st)))"
    and "deadlineOrDefault (f_deadline (formData st)) now1 = Inr d1"
  shows "priorityCalls (snd (handleCreateTask now1 now2 calculatePriority createTask st)) =
     [\<lparr>pr_title = trim (f_title (formData st)), pr_description = trim (f_description (formData st)),
       pr_category_id = or_str (f_category (formData st)) (ascii ''Personal''),
       pr_deadline = d1\<rparr>]"
  using assms
  by (auto simp: handleCreateTask_def Let_def createFailed_def serviceFailed_def split: sum.splits)


lemma handleSubmit_sends_priority:
  assumes "truthy_str (trim (f_title (qa_formData st)))"
    and "deadlineOrDefault (f_deadline (qa_formData st)) now1 = Inr d1"
  shows "priorityCalls (snd (handleSubmit now1 now2 calculatePriority createTask st)) =
     [\<lparr>pr_title = trim (f_title (qa_formData st)),
       pr_description = trim (f_description (qa_formData st)),
       pr_category_id = or_str (f_category (qa_formData st)) (ascii ''Personal''),
       pr_deadline = d1\<rparr>]"
  using assms
  by (auto simp: handleSubmit_def Let_def createFailed_def serviceFailed_def split: sum.splits)


lemma sample_nonblank: "\<exists>c\<in>set (ascii ''  Write report ''). \<not> isWhiteSpace c"
  by (simp add: ascii_def isWhiteSpace_def)


lemma sample_form_nonblank:
  "\<exists>c\<in>set (f_title (formData (managerState sampleForm))). \<not> isWhiteSpace c"
  "\<exists>c\<in>set (f_title (qa_formData (quickAddState sampleForm))). \<not> isWhiteSpace c"
  by (simp_all add: managerState_def quickAddState_def sampleForm_def sample_nonblank)

lemma sample_form_empty:
  "f_category (formData (managerState sampleForm)) = []"
  "f_category (qa_formData (quickAddState sampleForm)) = []"
  "f_deadline (formData (managerState sampleForm)) = []"
  "f_deadline (qa_formData (quickAddState sampleForm)) = []"
  by (simp_all add: managerState_def quickAddState_def sampleForm_def)

section \<open>Validation of the title\<close>

text \<open>
  C1. When the title of the form is empty or holds only white space, both creation
  handlers (\<open>handleCreateTask\<close> of \<open>TaskManager\<close>, \<open>handleSubmit\<close> of \<open>QuickAddTask\<close>)
  reject: they show the destructive toast "Title Required", leave their state as it is,
  and neither the priority calculation nor the creation of a task is called, whatever the
  clock and the service would answer.
\<close>

theorem blank_title_rejected:
  "((\<forall>c\<in>set (f_title (formData st)). isWhiteSpace c) \<longrightarrow>
      handleCreateTask now1 now2 calculatePriority createTask st = (st, [Toast titleRequired])
      \<and> priorityCalls (snd (handleCreateTask now1 now2 calculatePriority createTask st)) = []
      \<and> createCalls (snd (handleCreateTask now1 now2 calculatePriority createTask st)) = [])
   \<and> ((\<forall>c\<in>set (f_title (qa_formData qst)). isWhiteSpace c) \<longrightarrow>
      handleSubmit now1 now2 calculatePriority createTask qst = (qst, [Toast titleRequired])
      \<and> priorityCalls (snd (handleSubmit now1 now2 calculatePriority createTask qst)) = []
      \<and> createCalls (snd (handleSubmit now1 now2 calculatePriority createTask qst)) = [])"
  by (simp add: handleCreateTask_def handleSubmit_def blank_not_truthy)

theorem blank_title_rejected_witness:
  "handleCreateTask 1704067200000 1704067200000 sampleCalculatePriority sampleCreateTask
     (managerState blankForm) = (managerState blankForm, [Toast titleRequired])
   \<and> createCalls (snd (handleCreateTask 1704067200000 1704067200000 sampleCalculatePriority
        sampleCreateTask (managerState blankForm))) = []
   \<and> handleSubmit 1704067200000 1704067200000 sampleCalculatePriority sampleCreateTask
     (quickAddState blankForm) = (quickAddState blankForm, [Toast titleRequired])"
  using blank_title_rejected [where st = "managerState blankForm" and qst = "quickAddState blankForm"
      and ?now1.0 = 1704067200000 and ?now2.0 = 1704067200000
      and calculatePriority = sampleCalculatePriority and createTask = sampleCreateTask]
  by (simp add: managerState_def quickAddState_def blankForm_def isWhiteSpace_def)

section \<open>Deleting a task\<close>

text \<open>
  C9. For every state and every \<open>DELETE_TASK\<close> action the reducer leaves the contexts,
  the categories, the loading flag and the error unchanged. The new task list is the old
  one without the tasks whose id is the payload: it is a subsequence of the old list (the
  order is kept), no task in it has the payload as its id, and the tasks with another id
  are exactly the old ones, in their old order.
\<close>

theorem taskReducer_DELETE_TASK:
  "contexts (taskReducer state (DELETE_TASK p)) = contexts state
   \<and> categories (taskReducer state (DELETE_TASK p)) = categories state
   \<and> loading (taskReducer state (DELETE_TASK p)) = loading state
   \<and> error (taskReducer state (DELETE_TASK p)) = error state
   \<and> tasks (taskReducer state (DELETE_TASK p)) = filter (\<lambda>task. task_id task \<noteq> p) (tasks state)
   \<and> subseq (tasks (taskReducer state (DELETE_TASK p))) (tasks state)
   \<and> p \<notin> task_id ` set (tasks (taskReducer state (DELETE_TASK p)))
   \<and> filter (\<lambda>task. task_id task \<noteq> p) (tasks (taskReducer state (DELETE_TASK p)))
       = filter (\<lambda>task. task_id task \<noteq> p) (tasks state)"
  by auto

theorem taskReducer_DELETE_TASK_witness:
  "tasks (taskReducer
            (initialState\<lparr>tasks := [sampleTask ''a'' ''one'', sampleTask ''b'' ''two'',
                                   sampleTask ''a'' ''three'', sampleTask ''c'' ''four'']\<rparr>)
            (DELETE_TASK (ascii ''a'')))
     = [sampleTask ''b'' ''two'', sampleTask ''c'' ''four'']
   \<and> loading (taskReducer
            (initialState\<lparr>tasks := [sampleTask ''a'' ''one'', sampleTask ''b'' ''two'',
                                   sampleTask ''a'' ''three'', sampleTask ''c'' ''four'']\<rparr>)
            (DELETE_TASK (ascii ''a''))) = False"
  using taskReducer_DELETE_TASK
    [of "initialState\<lparr>tasks := [sampleTask ''a'' ''one'', sampleTask ''b'' ''two'',
                                   sampleTask ''a'' ''three'', sampleTask ''c'' ''four'']\<rparr>"
        "ascii ''a''"]
  by (simp add: initialState_def sampleTask_def ascii_def)

section \<open>The default category\<close>

text \<open>
  C7. When the form holds no category, every priority request that a creation handler
  sends (\<open>handleCreateTask\<close> of \<open>TaskManager\<close>, \<open>handleSubmit\<close> of \<open>QuickAddTask\<close>) names
  the category \<open>Personal\<close>. Such a request is sent: when the title is not blank and the
  deadline is given or the clock is in the range of dates, the handler sends exactly one
  priority request, with the trimmed title and description and the category \<open>Personal\<close>.
\<close>

theorem category_defaults_to_Personal:
  "(f_category (formData st) = [] \<longrightarrow>
      (\<forall>r\<in>set (priorityCalls (snd (handleCreateTask now1 now2 calculatePriority createTask st))).
         pr_category_id r = ascii ''Personal'')
      \<and> ((\<exists>c\<in>set (f_title (formData st)). \<not> isWhiteSpace c)
          \<and> (f_deadline (formData st) \<noteq> []
              \<or> \<bar>now1 + 7 * 24 * 60 * 60 * 1000\<bar> \<le> 8640000000000000) \<longrightarrow>
         (\<exists>d. priorityCalls (snd (handleCreateTask now1 now2 calculatePriority createTask st)) =
            [\<lparr>pr_title = trim (f_title (formData st)),
              pr_description = trim (f_description (formData st)),
              pr_category_id = ascii ''Personal'', pr_deadline = d\<rparr>])))
   \<and> (f_category (qa_formData qst) = [] \<longrightarrow>
      (\<forall>r\<in>set (priorityCalls (snd (handleSubmit now1 now2 calculatePriority createTask qst))).
         pr_category_id r = ascii ''Personal'')
      \<and> ((\<exists>c\<in>set (f_title (qa_formData qst)). \<not> isWhiteSpace c)
          \<and> (f_deadline (qa_formData qst) \<noteq> []
              \<or> \<bar>now1 + 7 * 24 * 60 * 60 * 1000\<bar> \<le> 8640000000000000) \<longrightarrow>
         (\<exists>d. priorityCalls (snd (handleSubmit now1 now2 calculatePriority createTask qst)) =
            [\<lparr>pr_title = trim (f_title (qa_formData qst)),
              pr_description = trim (f_description (qa_formData qst)),
              pr_category_id = ascii ''Personal'', pr_deadline = d\<rparr>])))"
proof (intro conjI impI ballI)
  fix r
  assume "f_category (formData st) = []"
    and "r \<in> set (priorityCalls (snd (handleCreateTask now1 now2 calculatePriority createTask st)))"
  then show "pr_category_id r = ascii ''Personal''"
    by (auto dest!: priorityCalls_handleCreateTask simp: or_str_empty)
next
  assume c: "f_category (formData st) = []"
    and h: "(\<exists>c\<in>set (f_title (formData st)). \<not> isWhiteSpace c)
          \<and> (f_deadline (formData st) \<noteq> []
              \<or> \<bar>now1 + 7 * 24 * 60 * 60 * 1000\<bar> \<le> 8640000000000000)"
  from h have t: "truthy_str (trim (f_title (formData st)))" by (simp add: nonblank_truthy)
  from h obtain d where d: "deadlineOrDefault (f_deadline (formData st)) now1 = Inr d"
    using deadlineOrDefault_resolves by blast
  from handleCreateTask_sends_priority [OF t d] c
  show "\<exists>d. priorityCalls (snd (handleCreateTask now1 now2 calculatePriority createTask st)) =
            [\<lparr>pr_title = trim (f_title (formData st)),
              pr_description = trim (f_description (formData st)),
              pr_category_id = ascii ''Personal'', pr_deadline = d\<rparr>]"
    by (simp add: or_str_empty)
next
  fix r
  assume "f_category (qa_formData qst) = []"
    and "r \<in> set (priorityCalls (snd (handleSubmit now1 now2 calculatePriority createTask qst)))"
  then show "pr_category_id r = ascii ''Personal''"
    by (auto dest!: priorityCalls_handleSubmit simp: or_str_empty)
next
  assume c: "f_category (qa_formData qst) = []"
    and h: "(\<exists>c\<in>set (f_title (qa_formData qst)). \<not> isWhiteSpace c)
          \<and> (f_deadline (qa_formData qst) \<noteq> []
              \<or> \<bar>now1 + 7 * 24 * 60 * 60 * 1000\<bar> \<le> 8640000000000000)"
  from h have t: "truthy_str (trim (f_title (qa_formData qst)))" by (simp add: nonblank_truthy)
  from h obtain d where d: "deadlineOrDefault (f_deadline (qa_formData qst)) now1 = Inr d"
    using deadlineOrDefault_resolves by blast
  from handleSubmit_sends_priority [OF t d] c
  show "\<exists>d. priorityCalls (snd (handleSubmit now1 now2 calculatePriority createTask qst)) =
            [\<lparr>pr_title = trim (f_title (qa_formData qst)),
              pr_description = trim (f_description (qa_formData qst)),
              pr_category_id = ascii ''Personal'', pr_deadline = d\<rparr>]"
    by (simp add: or_str_empty)
qed

theorem category_defaults_to_Personal_witness:
  "f_category (formData (managerState sampleForm)) = []
   \<and> priorityCalls (snd (handleCreateTask 1704067200000 1704067200000
        sampleCalculatePriority sampleCreateTask (managerState sampleForm))) =
      [\<lparr>pr_title = ascii ''Write report'', pr_description = ascii ''quarterly numbers'',
        pr_category_id = ascii ''Personal'', pr_deadline = ascii ''2024-01-08''\<rparr>]
   \<and> f_category (qa_formData (quickAddState sampleForm)) = []
   \<and> priorityCalls (snd (handleSubmit 1704067200000 1704067200000
        sampleCalculatePriority sampleCreateTask (quickAddState sampleForm))) =
      [\<lparr>pr_title = ascii ''Write report'', pr_description = ascii ''quarterly numbers'',
        pr_category_id = ascii ''Personal'', pr_deadline = ascii ''2024-01-08''\<rparr>]"
proof -
  have k: "\<bar>1704067200000 + 7 * 24 * 60 * 60 * 1000\<bar> \<le> (8640000000000000::int)" by simp
  from category_defaults_to_Personal [where st = "managerState sampleForm"
      and qst = "quickAddState sampleForm" and ?now1.0 = 1704067200000 and ?now2.0 = 1704067200000
      and calculatePriority = sampleCalculatePriority and createTask = sampleCreateTask]
    sample_form_nonblank sample_form_empty k
  show ?thesis by (simp add: sample_handleCreateTask sample_handleSubmit)
qed

section \<open>The task that is submitted\<close>



section \<open>The default deadline\<close>




section \<open>A failed provider call\<close>

text \<open>
  C2. When the one attempt at the external provider does not succeed (it times out, the
  network fails, or the response is malformed), the suggestions operation returns what it
  returns with no provider configured. For a request with a title that is the locally
  computed result for that title and description, unchanged, and the failure is logged: the
  caller gets a result, never the provider's error.
\<close>

theorem provider_failure_falls_back:
  "(\<forall>x. attempt t d \<noteq> ProviderAnswer x) \<longrightarrow>
     fst (suggestions localCompute (Some attempt) (Some t) d)
       = fst (suggestions localCompute None (Some t) d)
     \<and> (t \<noteq> [] \<longrightarrow>
          fst (suggestions localCompute (Some attempt) (Some t) d) = Inr (localCompute t d)
          \<and> snd (suggestions localCompute (Some attempt) (Some t) d)
              = [ProviderFailed (attempt t d)])"
  by (cases "attempt t d") (simp_all add: suggestions_def Let_def)

theorem provider_failure_falls_back_witness:
  "suggestions sampleLocal (Some timingOut) (Some (ascii ''Write report''))
     (ascii ''quarterly numbers'')
   = (Inr (sampleLocal (ascii ''Write report'') (ascii ''quarterly numbers'')),
      [ProviderFailed ProviderTimeout])
   \<and> fst (suggestions sampleLocal None (Some (ascii ''Write report''))
        (ascii ''quarterly numbers''))
     = Inr (sampleLocal (ascii ''Write report'') (ascii ''quarterly numbers''))"
proof -
  have a: "\<forall>x. timingOut (ascii ''Write report'') (ascii ''quarterly numbers'') \<noteq> ProviderAnswer x"
    by (simp add: timingOut_def)
  have n: "ascii ''Write report'' \<noteq> []" by (simp add: ascii_def)
  have o: "timingOut (ascii ''Write report'') (ascii ''quarterly numbers'') = ProviderTimeout"
    by (simp add: timingOut_def)
  from provider_failure_falls_back [of timingOut "ascii ''Write report''"
      "ascii ''quarterly numbers''" sampleLocal] a n o
  show ?thesis by (auto simp: prod_eq_iff)
qed

section \<open>The collection fetchers\<close>




section \<open>Overdue tasks\<close>

text \<open>
  C4, as the code has it. \<open>isOverdue\<close> of \<open>TaskCard\<close> is derived from the deadline and the
  status of the task: it holds exactly when the task has a non-empty deadline that parses
  to a time before now and its status is not \<open>completed\<close>, and it does not depend on the
  stored field \<open>is_overdue\<close>. The record \<open>Task\<close> also stores a field \<open>is_overdue\<close>, and the
  overdue count of \<open>Dashboard\<close> is the number of tasks whose stored field is set, whatever
  their deadlines and statuses are.
\<close>

theorem isOverdue_derived_stats_stored:
  "isOverdue parseDate now task
     = (\<exists>d t. deadline task = Some d \<and> d \<noteq> [] \<and> parseDate d = Some t \<and> t < now
              \<and> status task \<noteq> Completed)
   \<and> isOverdue parseDate now (task\<lparr>is_overdue := b\<rparr>) = isOverdue parseDate now task
   \<and> overdue (stats state) = length (filter is_overdue (tasks state))
   \<and> overdue (stats (state\<lparr>tasks := map (\<lambda>t. t\<lparr>deadline := dl t, status := st t\<rparr>) (tasks state)\<rparr>))
     = overdue (stats state)"
proof -
  have "length (filter is_overdue (map (\<lambda>t. t\<lparr>deadline := dl t, status := st t\<rparr>) ts))
      = length (filter is_overdue ts)" for ts :: "Task list"
    by (induction ts) simp_all
  then show ?thesis
    by (auto simp: isOverdue_def stats_def truthy_str_def Let_def split: option.splits)
qed

theorem isOverdue_derived_stats_stored_witness:
  "isOverdue sampleParseDate 1704153600000 staleTask
   \<and> \<not> isOverdue sampleParseDate 1704153600000 (staleTask\<lparr>status := Completed\<rparr>)
   \<and> overdue (stats (initialState\<lparr>tasks := [staleTask\<lparr>is_overdue := True\<rparr>, staleTask]\<rparr>)) = 1"
proof -
  have d: "deadline staleTask = Some (ascii ''2024-01-01'')" "status staleTask = Todo"
    "is_overdue staleTask = False"
    by (simp_all add: staleTask_def sampleTask_def)
  have p: "sampleParseDate (ascii ''2024-01-01'') = Some 1704067200000"
    by (simp add: sampleParseDate_def)
  have n: "ascii ''2024-01-01'' \<noteq> []" by (simp add: ascii_def)
  from isOverdue_derived_stats_stored [of sampleParseDate 1704153600000 staleTask]
    isOverdue_derived_stats_stored [of sampleParseDate 1704153600000 "staleTask\<lparr>status := Completed\<rparr>"
      _ "initialState\<lparr>tasks := [staleTask\<lparr>is_overdue := True\<rparr>, staleTask]\<rparr>"]
  show ?thesis by (simp add: d p n initialState_def)
qed

text \<open>
  The claim that the flag is never stored or read apart from the deadline and the status
  fails: a task with the deadline 2024-01-01 and the status \<open>todo\<close> is overdue for
  \<open>TaskCard\<close> on 2024-01-02, while \<open>Dashboard\<close> counts it as overdue or not according to
  its stored field alone.
\<close>

theorem dashboard_reads_the_stored_flag:
  "deadline staleTask = Some (ascii ''2024-01-01'')
   \<and> sampleParseDate (ascii ''2024-01-01'') = Some 1704067200000
   \<and> status staleTask = Todo
   \<and> isOverdue sampleParseDate 1704153600000 staleTask
   \<and> overdue (stats (initialState\<lparr>tasks := [staleTask]\<rparr>)) = 0
   \<and> overdue (stats (initialState\<lparr>tasks := [staleTask\<lparr>is_overdue := True\<rparr>]\<rparr>)) = 1"
proof -
  have d: "deadline staleTask = Some (ascii ''2024-01-01'')" "status staleTask = Todo"
    "is_overdue staleTask = False"
    by (simp_all add: staleTask_def sampleTask_def)
  have p: "sampleParseDate (ascii ''2024-01-01'') = Some 1704067200000"
    by (simp add: sampleParseDate_def)
  have n: "truthy_str (ascii ''2024-01-01'')" by (simp add: truthy_str_def ascii_def)
  show ?thesis
    by (simp add: d p n isOverdue_def stats_def initialState_def)
qed

section \<open>Score and label\<close>

text \<open>
  C5. The label of a score follows the thresholds: \<open>urgent\<close> from 0.75, \<open>high\<close> from 0.5,
  \<open>medium\<close> from 0.25, \<open>low\<close> below. The score orders consistently with the label: a
  higher score never has a lower label, and a higher label always has a higher score.
\<close>

theorem label_follows_thresholds:
  "(label_of_score s = Urgent \<longleftrightarrow> 0.75 \<le> s)
   \<and> (label_of_score s = High \<longleftrightarrow> 0.5 \<le> s \<and> s < 0.75)
   \<and> (label_of_score s = Medium \<longleftrightarrow> 0.25 \<le> s \<and> s < 0.5)
   \<and> (label_of_score s = Low \<longleftrightarrow> s < 0.25)
   \<and> (s \<le> s' \<longrightarrow> rank (label_of_score s) \<le> rank (label_of_score s'))
   \<and> (rank (label_of_score s) < rank (label_of_score s') \<longrightarrow> s < s')"
  by (auto simp: label_of_score_def)

theorem label_follows_thresholds_witness:
  "label_of_score 0.6 = High \<and> label_of_score 0.75 = Urgent
   \<and> rank (label_of_score 0.6) \<le> rank (label_of_score 0.75)
   \<and> rank (label_of_score 0.2) < rank (label_of_score 0.3)"
  using label_follows_thresholds [of "0.6" "0.75"] label_follows_thresholds [of "0.75" "0.75"]
    label_follows_thresholds [of "0.2" "0.3"]
  by (simp add: label_of_score_def)

section \<open>No tasks and no contexts\<close>

text \<open>
  C6. The aggregation of no tasks and no contexts is a snapshot with productivity 0,
  burnout 0, no focus and no recommendations; \<open>aggregate\<close> is a total function, so this is
  a result and not an error.
\<close>

theorem aggregate_of_nothing:
  "aggregate sentence mid completedAt parseDate now [] []
     = \<lparr>productivity = 0, burnout = 0, focus = [], recommendations = []\<rparr>"
  by (simp add: aggregate_def category_counts_def clamp01_def)

theorem aggregate_of_nothing_witness:
  "productivity (aggregate sampleSentence 1 sampleCompletedAt sampleParseDate 1704067200000 [] []) = 0
   \<and> burnout (aggregate sampleSentence 1 sampleCompletedAt sampleParseDate 1704067200000 [] []) = 0
   \<and> focus (aggregate sampleSentence 1 sampleCompletedAt sampleParseDate 1704067200000 [] []) = []
   \<and> recommendations (aggregate sampleSentence 1 sampleCompletedAt sampleParseDate 1704067200000 [] []) = []"
  using aggregate_of_nothing [of sampleSentence 1 sampleCompletedAt sampleParseDate 1704067200000]
  by simp

end
